theory Spec2Isabelle
  imports Complex_Main
begin

section \<open>SEIR simulator with parameter estimation: the numeric model\<close>

text \<open>
  The notebook computes with numpy float64 values. They are embedded as exact reals
  extended by the three special values of IEEE arithmetic: finite arithmetic is exact
  (rounding and overflow come with the float64 operations further down), division by
  zero and the operations on infinities give the special values that numpy returns
  together with a RuntimeWarning, without raising (the state that the solver hands to
  the derivative function is a float64 array). Signed zeros are not distinguished: a
  zero divisor counts as +0.
\<close>

datatype npfloat = Fin real | PInf | NInf | NaN

fun is_finite :: "npfloat \<Rightarrow> bool" where
  "is_finite (Fin x) = True"
| "is_finite PInf = False"
| "is_finite NInf = False"
| "is_finite NaN = False"

text \<open>The infinity (or NaN) carrying the sign of a real number.\<close>

definition inf_of_sign :: "real \<Rightarrow> npfloat" where
  "inf_of_sign s = (if s = 0 then NaN else if 0 < s then PInf else NInf)"

fun sign_of :: "npfloat \<Rightarrow> real" where
  "sign_of (Fin x) = sgn x"
| "sign_of PInf = 1"
| "sign_of NInf = - 1"
| "sign_of NaN = 0"

fun np_neg :: "npfloat \<Rightarrow> npfloat" where
  "np_neg (Fin x) = Fin (- x)"
| "np_neg PInf = NInf"
| "np_neg NInf = PInf"
| "np_neg NaN = NaN"

fun np_add :: "npfloat \<Rightarrow> npfloat \<Rightarrow> npfloat" where
  "np_add (Fin x) (Fin y) = Fin (x + y)"
| "np_add NaN b = NaN"
| "np_add a NaN = NaN"
| "np_add PInf NInf = NaN"
| "np_add NInf PInf = NaN"
| "np_add PInf b = PInf"
| "np_add NInf b = NInf"
| "np_add a PInf = PInf"
| "np_add a NInf = NInf"

fun np_mul :: "npfloat \<Rightarrow> npfloat \<Rightarrow> npfloat" where
  "np_mul (Fin x) (Fin y) = Fin (x * y)"
| "np_mul NaN b = NaN"
| "np_mul a NaN = NaN"
| "np_mul a b = inf_of_sign (sign_of a * sign_of b)"

fun np_div :: "npfloat \<Rightarrow> npfloat \<Rightarrow> npfloat" where
  "np_div (Fin x) (Fin y) = (if y = 0 then inf_of_sign (sgn x) else Fin (x / y))"
| "np_div NaN b = NaN"
| "np_div a NaN = NaN"
| "np_div (Fin x) b = Fin 0"
| "np_div a (Fin y) = inf_of_sign (sign_of a * (if y < 0 then - 1 else 1))"
| "np_div a b = NaN"

fun np_abs :: "npfloat \<Rightarrow> npfloat" where
  "np_abs (Fin x) = Fin \<bar>x\<bar>"
| "np_abs PInf = PInf"
| "np_abs NInf = PInf"
| "np_abs NaN = NaN"

fun np_sqrt :: "npfloat \<Rightarrow> npfloat" where
  "np_sqrt (Fin x) = (if x < 0 then NaN else Fin (sqrt x))"
| "np_sqrt PInf = PInf"
| "np_sqrt NInf = NaN"
| "np_sqrt NaN = NaN"

instantiation npfloat :: "{zero,plus,minus,uminus,times,inverse,abs}"
begin

definition zero_npfloat :: npfloat where
  "zero_npfloat = Fin 0"

definition plus_npfloat :: "npfloat \<Rightarrow> npfloat \<Rightarrow> npfloat" where
  "plus_npfloat a b = np_add a b"

definition uminus_npfloat :: "npfloat \<Rightarrow> npfloat" where
  "uminus_npfloat a = np_neg a"

definition minus_npfloat :: "npfloat \<Rightarrow> npfloat \<Rightarrow> npfloat" where
  "minus_npfloat a b = np_add a (np_neg b)"

definition times_npfloat :: "npfloat \<Rightarrow> npfloat \<Rightarrow> npfloat" where
  "times_npfloat a b = np_mul a b"

definition divide_npfloat :: "npfloat \<Rightarrow> npfloat \<Rightarrow> npfloat" where
  "divide_npfloat a b = np_div a b"

definition inverse_npfloat :: "npfloat \<Rightarrow> npfloat" where
  "inverse_npfloat a = np_div (Fin 1) a"

definition abs_npfloat :: "npfloat \<Rightarrow> npfloat" where
  "abs_npfloat a = np_abs a"

instance ..

end

section \<open>The compartment model\<close>

text \<open>
  A compartment state is the 4-vector (S, E, I, R) that the solver hands to the
  derivative function; the function unpacks exactly four components.
\<close>

type_synonym state = "npfloat \<times> npfloat \<times> npfloat \<times> npfloat"

text \<open>
  \<^verbatim>\<open>
  def ode_model(z, t, beta, sigma, gamma):
      S, E, I, R = z
      N = S + E + I + R
      dSdt = -beta*S*I/N
      dEdt = beta*S*I/N - sigma*E
      dIdt = sigma*E - gamma*I
      dRdt = gamma*I
      return [dSdt, dEdt, dIdt, dRdt]
  \<close>
\<close>

definition ode_model :: "state \<Rightarrow> npfloat \<Rightarrow> npfloat \<Rightarrow> npfloat \<Rightarrow> npfloat \<Rightarrow> state" where
  "ode_model z t beta sigma gamma =
     (case z of (S, E, I, R) \<Rightarrow>
        let N = S + E + I + R;
            dSdt = - beta * S * I / N;
            dEdt = beta * S * I / N - sigma * E;
            dIdt = sigma * E - gamma * I;
            dRdt = gamma * I
        in (dSdt, dEdt, dIdt, dRdt))"

section \<open>Float64 arithmetic\<close>

text \<open>
  What the program runs is float64 arithmetic: every operation returns the exact
  result rounded to the nearest float64, ties to even. A float64 has 53 significant
  bits; its exponent is at least -1022 (below that the spacing stays 2^-1074, gradual
  underflow), and a result that rounds to 2^1024 or beyond becomes an infinity.
  \<open>round64\<close> rounds a real number, \<open>fl64\<close> adds the overflow, and the four
  operations are the exact operations above followed by rounding. The exact
  operations give the expressions that the code evaluates; these give the values.
\<close>

definition round_half_even :: "real \<Rightarrow> int" where
  "round_half_even y =
     (let f = \<lfloor>y\<rfloor>; d = y - of_int f in
      if d < 1 / 2 then f
      else if 1 / 2 < d then f + 1
      else if even f then f else f + 1)"

definition round64 :: "real \<Rightarrow> real" where
  "round64 x =
     (if x = 0 then 0
      else let e = max \<lfloor>log 2 \<bar>x\<bar>\<rfloor> (- 1022);
               ulp = 2 powr of_int (e - 52)
           in of_int (round_half_even (x / ulp)) * ulp)"

definition fl64 :: "real \<Rightarrow> npfloat" where
  "fl64 x = (let r = round64 x in if 2 powr 1024 \<le> \<bar>r\<bar> then inf_of_sign (sgn r) else Fin r)"

fun np_round :: "npfloat \<Rightarrow> npfloat" where
  "np_round (Fin x) = fl64 x"
| "np_round a = a"

definition add64 :: "npfloat \<Rightarrow> npfloat \<Rightarrow> npfloat" where
  "add64 a b = np_round (a + b)"

definition sub64 :: "npfloat \<Rightarrow> npfloat \<Rightarrow> npfloat" where
  "sub64 a b = np_round (a - b)"



text \<open>
  The unit roundoff 2^-53 and half the spacing of the subnormal numbers, 2^-1075: the
  two terms of the rounding error.
\<close>

definition u64 :: real where
  "u64 = 2 powr (- 53)"

definition eta64 :: real where
  "eta64 = 2 powr (- 1075)"





section \<open>Parameters and errors\<close>

text \<open>
  The parameter store is lmfit's \<^verbatim>\<open>Parameters\<close>, a dictionary from names to
  parameters; the notebook fills it with
  \<^verbatim>\<open>params.add('beta', value=beta, min=0, max=10)\<close> and reads
  \<^verbatim>\<open>params['beta'].value\<close>. Reading a missing name raises KeyError; subtracting
  or adding arrays whose shapes do not broadcast, and reshaping to a shape of another
  size, raise ValueError.
\<close>

record parameter =
  p_value :: npfloat
  p_min :: npfloat
  p_max :: npfloat
  p_vary :: bool

type_synonym Parameters = "string \<rightharpoonup> parameter"

datatype pyerror = KeyError string | ValueError

definition params_add :: "Parameters \<Rightarrow> string \<Rightarrow> npfloat \<Rightarrow> npfloat \<Rightarrow> npfloat \<Rightarrow> Parameters" where
  "params_add params name v lo hi =
     params(name \<mapsto> \<lparr>p_value = v, p_min = lo, p_max = hi, p_vary = True\<rparr>)"

text \<open>
  \<^verbatim>\<open>
  params = Parameters()
  params.add('beta', value=beta, min=0, max=10)
  params.add('sigma', value=sigma, min=0, max=10)
  params.add('gamma', value=gamma, min=0, max=10)
  \<close>
\<close>

definition notebook_params :: "npfloat \<Rightarrow> npfloat \<Rightarrow> npfloat \<Rightarrow> Parameters" where
  "notebook_params beta sigma gamma =
     params_add (params_add (params_add Map.empty
       ''beta'' beta (Fin 0) (Fin 10))
       ''sigma'' sigma (Fin 0) (Fin 10))
       ''gamma'' gamma (Fin 0) (Fin 10)"

definition param_value :: "Parameters \<Rightarrow> string \<Rightarrow> pyerror + npfloat" where
  "param_value params name =
     (case params name of None \<Rightarrow> Inl (KeyError name) | Some p \<Rightarrow> Inr (p_value p))"

section \<open>The integrator\<close>

text \<open>
  \<^verbatim>\<open>odeint\<close> is scipy's solver (LSODA); its code is not part of the repository, so
  the solver is a parameter of everything that calls it. It receives the derivative
  function, the initial state, the time grid and the extra arguments, and returns one
  state per grid point.
\<close>

type_synonym derivative = "state \<Rightarrow> npfloat \<Rightarrow> npfloat \<Rightarrow> npfloat \<Rightarrow> npfloat \<Rightarrow> state"

type_synonym odeint = "derivative \<Rightarrow> state \<Rightarrow> npfloat list \<Rightarrow> npfloat \<times> npfloat \<times> npfloat \<Rightarrow> state list"

text \<open>
  Modelled from the spec: the contract of the solver (section 4.2, which is also what
  scipy documents for odeint): one state per grid point, and the state at index 0 is
  the initial state itself.
\<close>

definition odeint_contract :: "odeint \<Rightarrow> bool" where
  "odeint_contract od =
     (\<forall>f y0 t args. length (od f y0 t args) = length t \<and>
        (t \<noteq> [] \<longrightarrow> od f y0 t args ! 0 = y0))"

text \<open>
  \<^verbatim>\<open>
  def ode_solver(t, initial_conditions, params):
      initE, initI, initR, initN = initial_conditions
      beta, sigma, gamma = params['beta'].value, params['sigma'].value, params['gamma'].value
      initS = initN - (initE + initI + initR)
      res = odeint(ode_model, [initS, initE, initI, initR], t, args=(beta, sigma, gamma))
      return res
  \<close>
\<close>

definition ode_solver ::
  "odeint \<Rightarrow> npfloat list \<Rightarrow> npfloat \<times> npfloat \<times> npfloat \<times> npfloat \<Rightarrow> Parameters \<Rightarrow> pyerror + state list" where
  "ode_solver od t initial_conditions params =
     (case initial_conditions of (initE, initI, initR, initN) \<Rightarrow>
        (case param_value params ''beta'' of Inl e \<Rightarrow> Inl e | Inr beta \<Rightarrow>
        (case param_value params ''sigma'' of Inl e \<Rightarrow> Inl e | Inr sigma \<Rightarrow>
        (case param_value params ''gamma'' of Inl e \<Rightarrow> Inl e | Inr gamma \<Rightarrow>
           let initS = initN - (initE + initI + initR);
               res = od ode_model (initS, initE, initI, initR) t (beta, sigma, gamma)
           in Inr res))))"

text \<open>
  A reference solver that meets the contract: explicit Euler steps from one grid point
  to the next. It stands in for the solver where a concrete one is needed to run the
  model; it is not scipy's algorithm.
\<close>

definition euler_step :: "derivative \<Rightarrow> npfloat \<times> npfloat \<times> npfloat \<Rightarrow> state \<Rightarrow> npfloat \<Rightarrow> npfloat \<Rightarrow> state" where
  "euler_step f args y t0 t1 =
     (case args of (a, b, c) \<Rightarrow>
      case y of (S, E, I, R) \<Rightarrow>
      case f y t0 a b c of (dS, dE, dI, dR) \<Rightarrow>
        let h = t1 - t0 in (S + h * dS, E + h * dE, I + h * dI, R + h * dR))"

fun euler_steps :: "derivative \<Rightarrow> npfloat \<times> npfloat \<times> npfloat \<Rightarrow> state \<Rightarrow> npfloat \<Rightarrow> npfloat list \<Rightarrow> state list" where
  "euler_steps f args y t0 [] = []"
| "euler_steps f args y t0 (t1 # ts) =
     (let y' = euler_step f args y t0 t1 in y' # euler_steps f args y' t1 ts)"

fun euler_odeint :: odeint where
  "euler_odeint f y0 [] args = []"
| "euler_odeint f y0 (t0 # ts) args = y0 # euler_steps f args y0 t0 ts"

text \<open>
  scipy's odeint accepts a time grid only when it is monotone and raises ValueError
  otherwise:
  \<^verbatim>\<open>
  dt = np.diff(t)
  if not ((dt >= 0).all() or (dt <= 0).all()):
      raise ValueError(...)
  \<close>
  The solver parameter above does not fail; a statement about when the residual
  function fails is therefore made for monotone grids.
\<close>

fun np_nonneg :: "npfloat \<Rightarrow> bool" where
  "np_nonneg (Fin x) = (0 \<le> x)"
| "np_nonneg PInf = True"
| "np_nonneg NInf = False"
| "np_nonneg NaN = False"

fun np_nonpos :: "npfloat \<Rightarrow> bool" where
  "np_nonpos (Fin x) = (x \<le> 0)"
| "np_nonpos PInf = False"
| "np_nonpos NInf = True"
| "np_nonpos NaN = False"

definition np_diff :: "npfloat list \<Rightarrow> npfloat list" where
  "np_diff t = map2 (\<lambda>a b. b - a) t (tl t)"

definition monotone_grid :: "npfloat list \<Rightarrow> bool" where
  "monotone_grid t = (list_all np_nonneg (np_diff t) \<or> list_all np_nonpos (np_diff t))"

section \<open>The residual function\<close>

text \<open>
  A two-column array (the Infectious and Removed columns, or the observed data) is a
  list of rows. \<^verbatim>\<open>sol[:, 2:4]\<close> keeps columns 2 and 3 of every row.
\<close>

type_synonym array2 = "(npfloat \<times> npfloat) list"

definition slice_2_4 :: "state list \<Rightarrow> array2" where
  "slice_2_4 sol = map (\<lambda>(S, E, I, R). (I, R)) sol"

text \<open>
  numpy's elementwise operations on arrays of shapes (T, 2) and (M, 2): the shapes
  agree, or the array with a single row is broadcast over the rows of the other;
  otherwise ValueError is raised.
\<close>

definition broadcast2 ::
  "(npfloat \<Rightarrow> npfloat \<Rightarrow> npfloat) \<Rightarrow> array2 \<Rightarrow> array2 \<Rightarrow> pyerror + array2" where
  "broadcast2 f a b =
     (let g = (\<lambda>(x1, y1) (x2, y2). (f x1 x2, f y1 y2)) in
      if length a = length b then Inr (map2 g a b)
      else if length a = 1 then Inr (map (g (hd a)) b)
      else if length b = 1 then Inr (map (\<lambda>r. g r (hd b)) a)
      else Inl ValueError)"

definition np_subtract :: "array2 \<Rightarrow> array2 \<Rightarrow> pyerror + array2" where
  "np_subtract a b = broadcast2 (\<lambda>x y. x - y) a b"

definition np_plus :: "array2 \<Rightarrow> array2 \<Rightarrow> pyerror + array2" where
  "np_plus a b = broadcast2 (\<lambda>x y. x + y) a b"

text \<open>\<^verbatim>\<open>ravel\<close> flattens in row-major order.\<close>

definition ravel :: "array2 \<Rightarrow> npfloat list" where
  "ravel a = concat (map (\<lambda>(x, y). [x, y]) a)"

text \<open>
  \<^verbatim>\<open>
  def error(params, initial_conditions, tspan, data):
      sol = ode_solver(tspan, initial_conditions, params)
      return (sol[:, 2:4] - data).ravel()
  \<close>
\<close>

definition error ::
  "odeint \<Rightarrow> Parameters \<Rightarrow> npfloat \<times> npfloat \<times> npfloat \<times> npfloat \<Rightarrow> npfloat list \<Rightarrow> array2 \<Rightarrow> pyerror + npfloat list" where
  "error od params initial_conditions tspan data =
     (case ode_solver od tspan initial_conditions params of
        Inl e \<Rightarrow> Inl e
      | Inr sol \<Rightarrow>
          (case np_subtract (slice_2_4 sol) data of
             Inl e \<Rightarrow> Inl e
           | Inr d \<Rightarrow> Inr (ravel d)))"

text \<open>
  \<^verbatim>\<open>final = data + result.residual.reshape(data.shape)\<close>: the flat residual is cut
  into rows of two again; reshape raises ValueError unless the sizes agree.
\<close>

fun rows2 :: "npfloat list \<Rightarrow> array2" where
  "rows2 (x # y # zs) = (x, y) # rows2 zs"
| "rows2 zs = []"

definition reshape2 :: "npfloat list \<Rightarrow> nat \<Rightarrow> pyerror + array2" where
  "reshape2 v m = (if length v = 2 * m then Inr (rows2 v) else Inl ValueError)"

definition final :: "array2 \<Rightarrow> npfloat list \<Rightarrow> pyerror + array2" where
  "final data residual =
     (case reshape2 residual (length data) of
        Inl e \<Rightarrow> Inl e
      | Inr r \<Rightarrow> np_plus data r)"

text \<open>
  The residual cell and the line of the fitted values as the program evaluates them:
  the subtraction and the addition in float64.
\<close>

definition error64 ::
  "odeint \<Rightarrow> Parameters \<Rightarrow> npfloat \<times> npfloat \<times> npfloat \<times> npfloat \<Rightarrow> npfloat list \<Rightarrow> array2 \<Rightarrow> pyerror + npfloat list" where
  "error64 od params initial_conditions tspan data =
     (case ode_solver od tspan initial_conditions params of
        Inl e \<Rightarrow> Inl e
      | Inr sol \<Rightarrow>
          (case broadcast2 sub64 (slice_2_4 sol) data of
             Inl e \<Rightarrow> Inl e
           | Inr d \<Rightarrow> Inr (ravel d)))"

definition final64 :: "array2 \<Rightarrow> npfloat list \<Rightarrow> pyerror + array2" where
  "final64 data residual =
     (case reshape2 residual (length data) of
        Inl e \<Rightarrow> Inl e
      | Inr r \<Rightarrow> broadcast2 add64 data r)"

section \<open>The fit report\<close>





section \<open>Error metrics of the evaluation\<close>

text \<open>
  The same operations on one column, a one-dimensional array: shapes (a,) and (b,)
  agree, or the array of length 1 is broadcast.
\<close>

definition np_subtract1 :: "npfloat list \<Rightarrow> npfloat list \<Rightarrow> pyerror + npfloat list" where
  "np_subtract1 a b =
     (if length a = length b then Inr (map2 (\<lambda>x y. x - y) a b)
      else if length a = 1 then Inr (map (\<lambda>y. hd a - y) b)
      else if length b = 1 then Inr (map (\<lambda>x. x - hd b) a)
      else Inl ValueError)"

text \<open>\<^verbatim>\<open>np.mean\<close> is the sum over the count; of an empty array it is 0/0, NaN.\<close>

definition np_sum :: "npfloat list \<Rightarrow> npfloat" where
  "np_sum a = foldl (+) (Fin 0) a"

definition np_mean :: "npfloat list \<Rightarrow> npfloat" where
  "np_mean a = np_sum a / Fin (real (length a))"

text \<open>
  The two expressions of the evaluation cells, on a simulated and an observed column:
  \<^verbatim>\<open>np.mean(np.abs(a - b))\<close> and \<^verbatim>\<open>np.sqrt(np.mean((a - b)**2))\<close>.
\<close>

definition MAE :: "npfloat list \<Rightarrow> npfloat list \<Rightarrow> pyerror + npfloat" where
  "MAE a b =
     (case np_subtract1 a b of
        Inl e \<Rightarrow> Inl e
      | Inr d \<Rightarrow> Inr (np_mean (map abs d)))"

definition RMSE :: "npfloat list \<Rightarrow> npfloat list \<Rightarrow> pyerror + npfloat" where
  "RMSE a b =
     (case np_subtract1 a b of
        Inl e \<Rightarrow> Inl e
      | Inr d \<Rightarrow> Inr (np_sqrt (np_mean (map (\<lambda>x. x * x) d))))"

text \<open>
  The printed metrics. The column selector is \<^verbatim>\<open>[..., 0]\<close> (Infected, \<open>fst\<close>)
  or \<^verbatim>\<open>[..., 1]\<close> (Recovered/Deceased, \<open>snd\<close>).
  \<^verbatim>\<open>
  np.mean(np.abs(fitted_predicted_IR[:days, 0] - observed_IR[:days, 0]))
  np.sqrt(np.mean((fitted_predicted_IR[:days, 0] - observed_IR[:days, 0])**2))
  np.mean(np.abs(fitted_predicted_IR[days:observed_IR.shape[0], 0] - observed_IR[days:, 0]))
  np.sqrt(np.mean((fitted_predicted_IR[days:observed_IR.shape[0], 0] - observed_IR[days:, 0])**2))
  \<close>
\<close>

definition fitted_MAE :: "(npfloat \<times> npfloat \<Rightarrow> npfloat) \<Rightarrow> array2 \<Rightarrow> array2 \<Rightarrow> nat \<Rightarrow> pyerror + npfloat" where
  "fitted_MAE col fitted_predicted_IR observed_IR days =
     MAE (map col (take days fitted_predicted_IR)) (map col (take days observed_IR))"

definition fitted_RMSE :: "(npfloat \<times> npfloat \<Rightarrow> npfloat) \<Rightarrow> array2 \<Rightarrow> array2 \<Rightarrow> nat \<Rightarrow> pyerror + npfloat" where
  "fitted_RMSE col fitted_predicted_IR observed_IR days =
     RMSE (map col (take days fitted_predicted_IR)) (map col (take days observed_IR))"

definition predicted_MAE :: "(npfloat \<times> npfloat \<Rightarrow> npfloat) \<Rightarrow> array2 \<Rightarrow> array2 \<Rightarrow> nat \<Rightarrow> pyerror + npfloat" where
  "predicted_MAE col fitted_predicted_IR observed_IR days =
     MAE (map col (drop days (take (length observed_IR) fitted_predicted_IR)))
         (map col (drop days observed_IR))"

definition predicted_RMSE :: "(npfloat \<times> npfloat \<Rightarrow> npfloat) \<Rightarrow> array2 \<Rightarrow> array2 \<Rightarrow> nat \<Rightarrow> pyerror + npfloat" where
  "predicted_RMSE col fitted_predicted_IR observed_IR days =
     RMSE (map col (drop days (take (length observed_IR) fitted_predicted_IR)))
          (map col (drop days observed_IR))"

text \<open>An array of finite values.\<close>

definition float_rows :: "(real \<times> real) list \<Rightarrow> array2" where
  "float_rows a = map (\<lambda>(x, y). (Fin x, Fin y)) a"

text \<open>The observed counts are finite numbers.\<close>

definition finite_rows :: "array2 \<Rightarrow> bool" where
  "finite_rows a = list_all (\<lambda>(x, y). is_finite x \<and> is_finite y) a"

section \<open>Arithmetic of finite values\<close>

lemma Fin_add [simp]: "Fin x + Fin y = Fin (x + y)"
  by (simp add: plus_npfloat_def)

lemma Fin_sub [simp]: "Fin x - Fin y = Fin (x - y)"
  by (simp add: minus_npfloat_def)

lemma Fin_neg [simp]: "- Fin x = Fin (- x)"
  by (simp add: uminus_npfloat_def)

lemma Fin_mul [simp]: "Fin x * Fin y = Fin (x * y)"
  by (simp add: times_npfloat_def)

lemma Fin_div [simp]: "y \<noteq> 0 \<Longrightarrow> Fin x / Fin y = Fin (x / y)"
  by (simp add: divide_npfloat_def)


lemma Fin_abs [simp]: "\<bar>Fin x\<bar> = Fin \<bar>x\<bar>"
  by (simp add: abs_npfloat_def)

section \<open>The derivative function\<close>

text \<open>
  C1. On a state (S, E, I, R) of finite values whose total N = S+E+I+R is not zero,
  and finite rates beta, sigma, gamma, the derivative function returns exactly
  (-beta*S*I/N, beta*S*I/N - sigma*E, sigma*E - gamma*I, gamma*I).
\<close>

theorem ode_model_formula:
  assumes "S + E + I + R \<noteq> 0"
  shows "ode_model (Fin S, Fin E, Fin I, Fin R) t (Fin beta) (Fin sigma) (Fin gamma) =
           (Fin (- beta * S * I / (S + E + I + R)),
            Fin (beta * S * I / (S + E + I + R) - sigma * E),
            Fin (sigma * E - gamma * I),
            Fin (gamma * I))"
  using assms by (simp add: ode_model_def)

theorem ode_model_formula_witness:
  "(990 + 7 + 3 + 0 :: real) \<noteq> 0 \<and>
   ode_model (Fin 990, Fin 7, Fin 3, Fin 0) (Fin 0) (Fin (1/2)) (Fin (1/5)) (Fin (1/10)) =
     (Fin (- 297/200), Fin (17/200), Fin (11/10), Fin (3/10))"
  using ode_model_formula [of 990 7 3 0 "Fin 0" "1/2" "1/5" "1/10"] by simp

text \<open>
  In exact arithmetic an update of the form y + h * f(y'), the building block of the
  usual integration schemes, keeps the total of y.
\<close>

lemma derivative_step_keeps_total:
  assumes "S' + E' + I' + R' \<noteq> 0"
    and "ode_model (Fin S', Fin E', Fin I', Fin R') t (Fin beta) (Fin sigma) (Fin gamma) =
           (dS, dE, dI, dR)"
  shows "(Fin S + Fin h * dS) + (Fin E + Fin h * dE) + (Fin I + Fin h * dI) + (Fin R + Fin h * dR) =
           Fin (S + E + I + R)"
proof -
  define x where "x = beta * S' * I' / (S' + E' + I' + R')"
  have d: "dS = Fin (- x)" "dE = Fin (x - sigma * E')" "dI = Fin (sigma * E' - gamma * I')"
    "dR = Fin (gamma * I')"
    using assms by (simp_all add: ode_model_def x_def)
  have "S + h * (- x) + (E + h * (x - sigma * E')) + (I + h * (sigma * E' - gamma * I')) +
      (R + h * (gamma * I')) = S + E + I + R"
    by (simp add: algebra_simps)
  then show ?thesis
    by (simp add: d)
qed

text \<open>
  The derivative of the Removed compartment is gamma * I, whatever the other
  components are; it is not negative when gamma and I are not.
\<close>

lemma ode_model_dR:
  assumes "0 \<le> gamma" and "0 \<le> I"
  shows "\<exists>dS dE dI dR. ode_model (S, E, Fin I, R) t beta sigma (Fin gamma) = (dS, dE, dI, Fin dR) \<and>
           dR = gamma * I \<and> 0 \<le> dR"
  using assms by (simp add: ode_model_def Let_def)

section \<open>Running the solver\<close>

lemma length_euler_steps: "length (euler_steps f args y t0 ts) = length ts"
  by (induction ts arbitrary: y t0) (simp_all add: Let_def)

lemma euler_odeint_contract: "odeint_contract euler_odeint"
  unfolding odeint_contract_def
proof (intro allI)
  fix f y0 t args
  show "length (euler_odeint f y0 t args) = length t \<and> (t \<noteq> [] \<longrightarrow> euler_odeint f y0 t args ! 0 = y0)"
    by (cases t) (simp_all add: length_euler_steps)
qed

lemma ode_solver_Inr:
  assumes "param_value params ''beta'' = Inr beta"
    and "param_value params ''sigma'' = Inr sigma"
    and "param_value params ''gamma'' = Inr gamma"
  shows "ode_solver od t (initE, initI, initR, initN) params =
           Inr (od ode_model (initN - (initE + initI + initR), initE, initI, initR) t (beta, sigma, gamma))"
  using assms by (simp add: ode_solver_def)

lemma notebook_params_value:
  "param_value (notebook_params b s g) ''beta'' = Inr b"
  "param_value (notebook_params b s g) ''sigma'' = Inr s"
  "param_value (notebook_params b s g) ''gamma'' = Inr g"
  by (simp_all add: notebook_params_def params_add_def param_value_def)

text \<open>
  C3. For every initial condition (initE, initI, initR, initN) and every non-empty time
  grid, the trajectory that ode_solver returns has one state per grid point and its
  state at index 0 is exactly (initN - (initE + initI + initR), initE, initI, initR),
  for every solver that meets the contract.
\<close>

theorem ode_solver_initial_state:
  assumes "odeint_contract od" and "t \<noteq> []"
    and "param_value params ''beta'' = Inr beta"
    and "param_value params ''sigma'' = Inr sigma"
    and "param_value params ''gamma'' = Inr gamma"
  shows "\<exists>sol. ode_solver od t (initE, initI, initR, initN) params = Inr sol \<and> length sol = length t \<and>
           sol ! 0 = (initN - (initE + initI + initR), initE, initI, initR)"
  using assms by (simp add: ode_solver_Inr odeint_contract_def)

theorem ode_solver_initial_state_witness:
  "odeint_contract euler_odeint \<and> [Fin 0, Fin 1] \<noteq> [] \<and>
   (\<exists>sol. ode_solver euler_odeint [Fin 0, Fin 1] (Fin 7, Fin 3, Fin 0, Fin 1000)
            (notebook_params (Fin (1/2)) (Fin (1/5)) (Fin (1/10))) = Inr sol \<and>
          length sol = 2 \<and> sol ! 0 = (Fin 990, Fin 7, Fin 3, Fin 0))"
proof -
  have grid: "[Fin 0, Fin 1] \<noteq> []" by simp
  from ode_solver_initial_state [OF euler_odeint_contract grid
      notebook_params_value [of "Fin (1/2)" "Fin (1/5)" "Fin (1/10)"],
      where initE = "Fin 7" and initI = "Fin 3" and initR = "Fin 0" and initN = "Fin 1000"]
  show ?thesis
    using euler_odeint_contract by (auto simp: numeral_2_eq_2)
qed

section \<open>Residuals\<close>

lemma length_ravel: "length (ravel a) = 2 * length a"
  by (induction a) (auto simp: ravel_def)

lemma ravel_nth:
  "i < length a \<Longrightarrow> ravel a ! (2 * i) = fst (a ! i) \<and> ravel a ! (2 * i + 1) = snd (a ! i)"
proof (induction a arbitrary: i)
  case Nil
  then show ?case by simp
next
  case (Cons r a)
  obtain x y where r: "r = (x, y)" by (cases r)
  show ?case
  proof (cases i)
    case 0
    then show ?thesis by (simp add: ravel_def r)
  next
    case (Suc j)
    with Cons.prems have "j < length a" by simp
    from Cons.IH [OF this] show ?thesis
      by (simp add: ravel_def r Suc)
  qed
qed

lemma rows2_ravel: "rows2 (ravel a) = a"
  by (induction a) (auto simp: ravel_def)

lemma broadcast2_same:
  "length a = length b \<Longrightarrow>
     broadcast2 f a b = Inr (map2 (\<lambda>(x1, y1) (x2, y2). (f x1 x2, f y1 y2)) a b)"
  by (simp add: broadcast2_def)

lemma broadcast2_is_error:
  "broadcast2 f a b = Inl ValueError \<longleftrightarrow>
     length a \<noteq> length b \<and> length a \<noteq> 1 \<and> length b \<noteq> 1"
  by (simp add: broadcast2_def Let_def)

lemma broadcast2_length:
  "broadcast2 f a b = Inr c \<Longrightarrow> length c = (if length a = 1 then length b else length a)"
  by (auto simp: broadcast2_def Let_def split: if_splits)

lemma length_slice_2_4 [simp]: "length (slice_2_4 sol) = length sol"
  by (simp add: slice_2_4_def)

text \<open>
  C5. For a time grid of length T and an observed array of T rows, the residual
  function returns a flat vector of length 2*T whose entries 2*i and 2*i+1 are the
  simulated Infectious and Removed values of day i minus the observed ones: row-major
  order (day0 I, day0 R, day1 I, day1 R, ...).
\<close>

theorem error_flat_residuals:
  assumes "odeint_contract od"
    and "param_value params ''beta'' = Inr beta"
    and "param_value params ''sigma'' = Inr sigma"
    and "param_value params ''gamma'' = Inr gamma"
    and "length data = length tspan"
  shows "\<exists>sol r. ode_solver od tspan (initE, initI, initR, initN) params = Inr sol \<and>
           length sol = length tspan \<and>
           error od params (initE, initI, initR, initN) tspan data = Inr r \<and>
           length r = 2 * length tspan \<and>
           (\<forall>i<length tspan.
              (case sol ! i of (S, E, I, R) \<Rightarrow>
                 r ! (2 * i) = I - fst (data ! i) \<and> r ! (2 * i + 1) = R - snd (data ! i)))"
proof -
  define sol where "sol = od ode_model (initN - (initE + initI + initR), initE, initI, initR) tspan (beta, sigma, gamma)"
  define d where "d = map2 (\<lambda>(x1, y1) (x2, y2). (x1 - x2, y1 - y2)) (slice_2_4 sol) data"
  have solver: "ode_solver od tspan (initE, initI, initR, initN) params = Inr sol"
    using assms(2-4) by (simp add: ode_solver_Inr sol_def)
  have len: "length sol = length tspan"
    using assms(1) by (simp add: odeint_contract_def sol_def)
  have sub: "np_subtract (slice_2_4 sol) data = Inr d"
    using len assms(5) by (simp add: np_subtract_def broadcast2_same d_def)
  have res: "error od params (initE, initI, initR, initN) tspan data = Inr (ravel d)"
    by (simp add: error_def solver sub)
  have lend: "length d = length tspan"
    using len assms(5) by (simp add: d_def)
  have entries: "(case sol ! i of (S, E, I, R) \<Rightarrow>
           ravel d ! (2 * i) = I - fst (data ! i) \<and> ravel d ! (2 * i + 1) = R - snd (data ! i))"
    if "i < length tspan" for i
  proof -
    obtain S E I R where row: "sol ! i = (S, E, I, R)" by (cases "sol ! i")
    obtain oi orr where obs: "data ! i = (oi, orr)" by (cases "data ! i")
    have "d ! i = (I - oi, R - orr)"
      using that len assms(5) by (simp add: d_def slice_2_4_def row obs)
    with ravel_nth [of i d] that lend show ?thesis
      by (simp add: row obs)
  qed
  show ?thesis
    using solver len res lend entries by (auto simp: length_ravel)
qed

theorem error_flat_residuals_witness:
  "odeint_contract euler_odeint \<and>
   length [(Fin 1, Fin 2), (Fin 5, Fin 1)] = length [Fin 0, Fin 1] \<and>
   (\<exists>sol r. ode_solver euler_odeint [Fin 0, Fin 1] (Fin 7, Fin 3, Fin 0, Fin 1000)
              (notebook_params (Fin (1/2)) (Fin (1/5)) (Fin (1/10))) = Inr sol \<and>
      sol = [(Fin 990, Fin 7, Fin 3, Fin 0),
             (Fin (197703 / 200), Fin (1417 / 200), Fin (41 / 10), Fin (3 / 10))] \<and>
      error euler_odeint (notebook_params (Fin (1/2)) (Fin (1/5)) (Fin (1/10)))
        (Fin 7, Fin 3, Fin 0, Fin 1000) [Fin 0, Fin 1] [(Fin 1, Fin 2), (Fin 5, Fin 1)] = Inr r \<and>
      length r = 2 * length [Fin 0, Fin 1] \<and>
      r = [Fin 2, Fin (- 2), Fin (- 9 / 10), Fin (- 7 / 10)])"
proof -
  have len: "length [(Fin 1, Fin 2), (Fin 5, Fin 1)] = length [Fin 0, Fin 1]" by simp
  from error_flat_residuals [OF euler_odeint_contract
      notebook_params_value [of "Fin (1/2)" "Fin (1/5)" "Fin (1/10)"] len,
      where initE = "Fin 7" and initI = "Fin 3" and initR = "Fin 0" and initN = "Fin 1000"]
  obtain sol r where
    s: "ode_solver euler_odeint [Fin 0, Fin 1] (Fin 7, Fin 3, Fin 0, Fin 1000)
          (notebook_params (Fin (1/2)) (Fin (1/5)) (Fin (1/10))) = Inr sol"
    and r: "error euler_odeint (notebook_params (Fin (1/2)) (Fin (1/5)) (Fin (1/10)))
        (Fin 7, Fin 3, Fin 0, Fin 1000) [Fin 0, Fin 1] [(Fin 1, Fin 2), (Fin 5, Fin 1)] = Inr r"
    and l: "length r = 2 * length [Fin 0, Fin 1]"
    by blast
  have sol: "sol = [(Fin 990, Fin 7, Fin 3, Fin 0),
             (Fin (197703 / 200), Fin (1417 / 200), Fin (41 / 10), Fin (3 / 10))]"
    using s by (simp add: ode_solver_def notebook_params_value euler_step_def ode_model_def)
  have rv: "r = [Fin 2, Fin (- 2), Fin (- 9 / 10), Fin (- 7 / 10)]"
    using r by (simp add: error_def s sol np_subtract_def broadcast2_def slice_2_4_def ravel_def)
  show ?thesis
    using euler_odeint_contract len s r l sol rv by blast
qed

text \<open>
  The residual function against an observed array of another length: with a grid of
  two days and a single observed row, numpy broadcasts the row over both days and no
  error is raised.
\<close>

theorem error_length_mismatch_broadcast:
  "length [Fin 0, Fin 1] \<noteq> length [(Fin 1, Fin 1)] \<and>
   error euler_odeint (notebook_params (Fin 0) (Fin 0) (Fin 0)) (Fin 1, Fin 2, Fin 3, Fin 10)
     [Fin 0, Fin 1] [(Fin 1, Fin 1)] = Inr [Fin 1, Fin 2, Fin 1, Fin 2]"
  by (simp add: error_def ode_solver_def notebook_params_value euler_step_def ode_model_def
      np_subtract_def broadcast2_def slice_2_4_def ravel_def Let_def)

lemma broadcast2_row_right:
  assumes "length b = 1" and "length a \<noteq> 1"
  shows "broadcast2 f a b = Inr (map (\<lambda>(x1, y1). (f x1 (fst (b ! 0)), f y1 (snd (b ! 0)))) a)"
proof -
  obtain r where b: "b = [r]"
    using assms(1) by (cases b) auto
  show ?thesis
    using assms(2) by (auto simp: broadcast2_def Let_def b case_prod_beta)
qed

lemma broadcast2_row_left:
  assumes "length a = 1" and "length b \<noteq> 1"
  shows "broadcast2 f a b = Inr (map (\<lambda>(x2, y2). (f (fst (a ! 0)) x2, f (snd (a ! 0)) y2)) b)"
proof -
  obtain r where a: "a = [r]"
    using assms(1) by (cases a) auto
  show ?thesis
    using assms(2) by (auto simp: broadcast2_def Let_def a case_prod_beta)
qed

text \<open>
  C6, as the code has it. The residual function checks nothing itself. With the three
  parameters present and on a non-empty monotone time grid (one that the solver
  accepts) it fails, with the ValueError of the
  array subtraction and after the solver has run, exactly when the two lengths differ
  and neither of them is 1, and it raises no other error. When the observed array has
  a single row and the grid has not a single point, that row is broadcast: the vector
  has two entries per grid point, entries 2*i and 2*i+1 being I and R of day i minus
  the single observed pair. When the grid has a single point and the observed array
  has not a single row, the single simulated state is broadcast: two entries per
  observed row, I and R of day 0 minus the observed pair of row i.
\<close>

theorem error_fails_iff:
  assumes "odeint_contract od"
    and "param_value params ''beta'' = Inr beta"
    and "param_value params ''sigma'' = Inr sigma"
    and "param_value params ''gamma'' = Inr gamma"
    and "tspan \<noteq> []" and "monotone_grid tspan"
  shows "(error od params (initE, initI, initR, initN) tspan data = Inl ValueError \<longleftrightarrow>
            length tspan \<noteq> length data \<and> length tspan \<noteq> 1 \<and> length data \<noteq> 1) \<and>
         (\<forall>e. error od params (initE, initI, initR, initN) tspan data = Inl e \<longrightarrow> e = ValueError) \<and>
         (length data = 1 \<and> length tspan \<noteq> 1 \<longrightarrow>
            (\<exists>sol r. ode_solver od tspan (initE, initI, initR, initN) params = Inr sol \<and>
               error od params (initE, initI, initR, initN) tspan data = Inr r \<and>
               length r = 2 * length tspan \<and>
               (\<forall>i<length tspan.
                  (case sol ! i of (S, E, I, R) \<Rightarrow>
                     r ! (2 * i) = I - fst (data ! 0) \<and> r ! (2 * i + 1) = R - snd (data ! 0))))) \<and>
         (length tspan = 1 \<and> length data \<noteq> 1 \<longrightarrow>
            (\<exists>sol r. ode_solver od tspan (initE, initI, initR, initN) params = Inr sol \<and>
               error od params (initE, initI, initR, initN) tspan data = Inr r \<and>
               length r = 2 * length data \<and>
               (\<forall>i<length data.
                  (case sol ! 0 of (S, E, I, R) \<Rightarrow>
                     r ! (2 * i) = I - fst (data ! i) \<and> r ! (2 * i + 1) = R - snd (data ! i)))))"
proof -
  define sol where "sol = od ode_model (initN - (initE + initI + initR), initE, initI, initR) tspan (beta, sigma, gamma)"
  have solver: "ode_solver od tspan (initE, initI, initR, initN) params = Inr sol"
    using assms(2-4) by (simp add: ode_solver_Inr sol_def)
  have len: "length (slice_2_4 sol) = length tspan"
    using assms(1) by (simp add: odeint_contract_def sol_def)
  have err: "error od params (initE, initI, initR, initN) tspan data =
      (case np_subtract (slice_2_4 sol) data of Inl e \<Rightarrow> Inl e | Inr d \<Rightarrow> Inr (ravel d))"
    by (simp add: error_def solver)
  have fails: "(error od params (initE, initI, initR, initN) tspan data = Inl ValueError \<longleftrightarrow>
            length tspan \<noteq> length data \<and> length tspan \<noteq> 1 \<and> length data \<noteq> 1) \<and>
         (\<forall>e. error od params (initE, initI, initR, initN) tspan data = Inl e \<longrightarrow> e = ValueError)"
  proof (cases "np_subtract (slice_2_4 sol) data")
    case (Inl e)
    then have e: "e = ValueError"
      by (auto simp: np_subtract_def broadcast2_def Let_def split: if_splits)
    with Inl have "length tspan \<noteq> length data \<and> length tspan \<noteq> 1 \<and> length data \<noteq> 1"
      using broadcast2_is_error [of "\<lambda>x y. x - y" "slice_2_4 sol" data] len
      by (simp add: np_subtract_def)
    with Inl e show ?thesis by (simp add: err)
  next
    case (Inr d)
    then have "\<not> (length tspan \<noteq> length data \<and> length tspan \<noteq> 1 \<and> length data \<noteq> 1)"
      using broadcast2_is_error [of "\<lambda>x y. x - y" "slice_2_4 sol" data] len
      by (simp add: np_subtract_def)
    then show ?thesis
      using Inr by (simp add: err)
  qed
  have right: "\<exists>sol r. ode_solver od tspan (initE, initI, initR, initN) params = Inr sol \<and>
               error od params (initE, initI, initR, initN) tspan data = Inr r \<and>
               length r = 2 * length tspan \<and>
               (\<forall>i<length tspan.
                  (case sol ! i of (S, E, I, R) \<Rightarrow>
                     r ! (2 * i) = I - fst (data ! 0) \<and> r ! (2 * i + 1) = R - snd (data ! 0)))"
    if one: "length data = 1" and more: "length tspan \<noteq> 1"
  proof -
    define d where "d = map (\<lambda>(x1, y1). (x1 - fst (data ! 0), y1 - snd (data ! 0))) (slice_2_4 sol)"
    have sub: "np_subtract (slice_2_4 sol) data = Inr d"
      unfolding np_subtract_def d_def using one more len by (intro broadcast2_row_right) simp_all
    have res: "error od params (initE, initI, initR, initN) tspan data = Inr (ravel d)"
      by (simp add: err sub)
    have lend: "length d = length tspan"
      using len by (simp add: d_def)
    have "(case sol ! i of (S, E, I, R) \<Rightarrow>
        ravel d ! (2 * i) = I - fst (data ! 0) \<and> ravel d ! (2 * i + 1) = R - snd (data ! 0))"
      if "i < length tspan" for i
    proof -
      obtain S E I R where row: "sol ! i = (S, E, I, R)" by (cases "sol ! i")
      have "d ! i = (I - fst (data ! 0), R - snd (data ! 0))"
        using that len by (simp add: d_def slice_2_4_def row)
      with ravel_nth [of i d] that lend show ?thesis
        by (simp add: row)
    qed
    then show ?thesis
      using solver res lend by (auto simp: length_ravel)
  qed
  have left: "\<exists>sol r. ode_solver od tspan (initE, initI, initR, initN) params = Inr sol \<and>
               error od params (initE, initI, initR, initN) tspan data = Inr r \<and>
               length r = 2 * length data \<and>
               (\<forall>i<length data.
                  (case sol ! 0 of (S, E, I, R) \<Rightarrow>
                     r ! (2 * i) = I - fst (data ! i) \<and> r ! (2 * i + 1) = R - snd (data ! i)))"
    if one: "length tspan = 1" and more: "length data \<noteq> 1"
  proof -
    define d where "d = map (\<lambda>(x2, y2). (fst (slice_2_4 sol ! 0) - x2, snd (slice_2_4 sol ! 0) - y2)) data"
    have sub: "np_subtract (slice_2_4 sol) data = Inr d"
      unfolding np_subtract_def d_def using one more len by (intro broadcast2_row_left) simp_all
    have res: "error od params (initE, initI, initR, initN) tspan data = Inr (ravel d)"
      by (simp add: err sub)
    have lend: "length d = length data"
      by (simp add: d_def)
    obtain S E I R where row: "sol ! 0 = (S, E, I, R)" by (cases "sol ! 0")
    have s0: "slice_2_4 sol ! 0 = (I, R)"
      using one len by (simp add: slice_2_4_def row)
    have "ravel d ! (2 * i) = I - fst (data ! i) \<and> ravel d ! (2 * i + 1) = R - snd (data ! i)"
      if "i < length data" for i
    proof -
      have "d ! i = (I - fst (data ! i), R - snd (data ! i))"
        using that by (simp add: d_def s0 case_prod_beta)
      with ravel_nth [of i d] that lend show ?thesis
        by simp
    qed
    then show ?thesis
      using solver res lend by (auto simp: length_ravel row)
  qed
  show ?thesis
    using fails right left by blast
qed

theorem error_fails_iff_witness:
  "odeint_contract euler_odeint \<and> [Fin 0, Fin 1, Fin 2] \<noteq> [] \<and> monotone_grid [Fin 0, Fin 1, Fin 2] \<and>
   error euler_odeint (notebook_params (Fin (1/2)) (Fin (1/5)) (Fin (1/10)))
     (Fin 7, Fin 3, Fin 0, Fin 1000) [Fin 0, Fin 1, Fin 2] [(Fin 1, Fin 2), (Fin 5, Fin 1)] =
     Inl ValueError \<and>
   [Fin 0, Fin 1] \<noteq> [] \<and> monotone_grid [Fin 0, Fin 1] \<and>
   (\<exists>sol r. ode_solver euler_odeint [Fin 0, Fin 1] (Fin 7, Fin 3, Fin 0, Fin 1000)
        (notebook_params (Fin (1/2)) (Fin (1/5)) (Fin (1/10))) = Inr sol \<and>
      sol = [(Fin 990, Fin 7, Fin 3, Fin 0),
             (Fin (197703 / 200), Fin (1417 / 200), Fin (41 / 10), Fin (3 / 10))] \<and>
      error euler_odeint (notebook_params (Fin (1/2)) (Fin (1/5)) (Fin (1/10)))
        (Fin 7, Fin 3, Fin 0, Fin 1000) [Fin 0, Fin 1] [(Fin 1, Fin 2)] = Inr r \<and>
      length r = 2 * length [Fin 0, Fin 1] \<and>
      r = [Fin 2, Fin (- 2), Fin (31 / 10), Fin (- (17 / 10))]) \<and>
   [Fin 0] \<noteq> [] \<and> monotone_grid [Fin 0] \<and>
   (\<exists>sol r. ode_solver euler_odeint [Fin 0] (Fin 7, Fin 3, Fin 0, Fin 1000)
        (notebook_params (Fin (1/2)) (Fin (1/5)) (Fin (1/10))) = Inr sol \<and>
      sol = [(Fin 990, Fin 7, Fin 3, Fin 0)] \<and>
      error euler_odeint (notebook_params (Fin (1/2)) (Fin (1/5)) (Fin (1/10)))
        (Fin 7, Fin 3, Fin 0, Fin 1000) [Fin 0] [(Fin 1, Fin 2), (Fin 5, Fin 1)] = Inr r \<and>
      length r = 2 * length [(Fin 1, Fin 2), (Fin 5, Fin 1)] \<and>
      r = [Fin 2, Fin (- 2), Fin (- 2), Fin (- 1)])"
proof -
  let ?p = "notebook_params (Fin (1/2)) (Fin (1/5)) (Fin (1/10))"
  have g3: "[Fin 0, Fin 1, Fin 2] \<noteq> []" and m3: "monotone_grid [Fin 0, Fin 1, Fin 2]"
    by (simp_all add: monotone_grid_def np_diff_def)
  have g2: "[Fin 0, Fin 1] \<noteq> []" and m2: "monotone_grid [Fin 0, Fin 1]"
    by (simp_all add: monotone_grid_def np_diff_def)
  have g1: "[Fin 0] \<noteq> []" and m1: "monotone_grid [Fin 0]"
    by (simp_all add: monotone_grid_def np_diff_def)
  have fail: "error euler_odeint ?p (Fin 7, Fin 3, Fin 0, Fin 1000) [Fin 0, Fin 1, Fin 2]
      [(Fin 1, Fin 2), (Fin 5, Fin 1)] = Inl ValueError"
    using error_fails_iff [OF euler_odeint_contract
      notebook_params_value [of "Fin (1/2)" "Fin (1/5)" "Fin (1/10)"] g3 m3,
      where initE = "Fin 7" and initI = "Fin 3" and initR = "Fin 0" and initN = "Fin 1000"
        and data = "[(Fin 1, Fin 2), (Fin 5, Fin 1)]"]
    by simp
  from error_fails_iff [OF euler_odeint_contract
      notebook_params_value [of "Fin (1/2)" "Fin (1/5)" "Fin (1/10)"] g2 m2,
      where initE = "Fin 7" and initI = "Fin 3" and initR = "Fin 0" and initN = "Fin 1000"
        and data = "[(Fin 1, Fin 2)]"]
  obtain sol r where
    s: "ode_solver euler_odeint [Fin 0, Fin 1] (Fin 7, Fin 3, Fin 0, Fin 1000) ?p = Inr sol"
    and r: "error euler_odeint ?p (Fin 7, Fin 3, Fin 0, Fin 1000) [Fin 0, Fin 1] [(Fin 1, Fin 2)] = Inr r"
    and l: "length r = 2 * length [Fin 0, Fin 1]"
    by auto
  have sol: "sol = [(Fin 990, Fin 7, Fin 3, Fin 0),
             (Fin (197703 / 200), Fin (1417 / 200), Fin (41 / 10), Fin (3 / 10))]"
    using s by (simp add: ode_solver_def notebook_params_value euler_step_def ode_model_def)
  have rv: "r = [Fin 2, Fin (- 2), Fin (31 / 10), Fin (- (17 / 10))]"
    using r by (simp add: error_def s sol np_subtract_def broadcast2_def slice_2_4_def ravel_def)
  from error_fails_iff [OF euler_odeint_contract
      notebook_params_value [of "Fin (1/2)" "Fin (1/5)" "Fin (1/10)"] g1 m1,
      where initE = "Fin 7" and initI = "Fin 3" and initR = "Fin 0" and initN = "Fin 1000"
        and data = "[(Fin 1, Fin 2), (Fin 5, Fin 1)]"]
  obtain sol1 r1 where
    s1: "ode_solver euler_odeint [Fin 0] (Fin 7, Fin 3, Fin 0, Fin 1000) ?p = Inr sol1"
    and r1: "error euler_odeint ?p (Fin 7, Fin 3, Fin 0, Fin 1000) [Fin 0]
        [(Fin 1, Fin 2), (Fin 5, Fin 1)] = Inr r1"
    and l1: "length r1 = 2 * length [(Fin 1, Fin 2), (Fin 5, Fin 1)]"
    by auto
  have sol1: "sol1 = [(Fin 990, Fin 7, Fin 3, Fin 0)]"
    using s1 by (simp add: ode_solver_def notebook_params_value)
  have rv1: "r1 = [Fin 2, Fin (- 2), Fin (- 2), Fin (- 1)]"
    using r1 by (simp add: error_def s1 sol1 np_subtract_def broadcast2_def slice_2_4_def ravel_def)
  have a: "\<exists>sol r. ode_solver euler_odeint [Fin 0, Fin 1] (Fin 7, Fin 3, Fin 0, Fin 1000) ?p = Inr sol \<and>
      sol = [(Fin 990, Fin 7, Fin 3, Fin 0),
             (Fin (197703 / 200), Fin (1417 / 200), Fin (41 / 10), Fin (3 / 10))] \<and>
      error euler_odeint ?p (Fin 7, Fin 3, Fin 0, Fin 1000) [Fin 0, Fin 1] [(Fin 1, Fin 2)] = Inr r \<and>
      length r = 2 * length [Fin 0, Fin 1] \<and>
      r = [Fin 2, Fin (- 2), Fin (31 / 10), Fin (- (17 / 10))]"
    using s sol r l rv by blast
  have b: "\<exists>sol r. ode_solver euler_odeint [Fin 0] (Fin 7, Fin 3, Fin 0, Fin 1000) ?p = Inr sol \<and>
      sol = [(Fin 990, Fin 7, Fin 3, Fin 0)] \<and>
      error euler_odeint ?p (Fin 7, Fin 3, Fin 0, Fin 1000) [Fin 0]
        [(Fin 1, Fin 2), (Fin 5, Fin 1)] = Inr r \<and>
      length r = 2 * length [(Fin 1, Fin 2), (Fin 5, Fin 1)] \<and>
      r = [Fin 2, Fin (- 2), Fin (- 2), Fin (- 1)]"
    using s1 sol1 r1 l1 rv1 by blast
  show ?thesis
    using euler_odeint_contract g3 m3 fail g2 m2 a g1 m1 b by blast
qed

section \<open>Rounding to float64\<close>

lemma round_half_even_error: "\<bar>of_int (round_half_even y) - y\<bar> \<le> 1 / 2"
  unfolding round_half_even_def Let_def by (auto; linarith)




lemma round64_error: "\<bar>round64 x - x\<bar> \<le> u64 * \<bar>x\<bar> + eta64"
proof (cases "x = 0")
  case True
  then show ?thesis by (simp add: round64_def u64_def eta64_def)
next
  case False
  define e where "e = max \<lfloor>log 2 \<bar>x\<bar>\<rfloor> (- 1022)"
  define ulp :: real where "ulp = 2 powr of_int (e - 52)"
  have ulp_pos: "0 < ulp" by (simp add: ulp_def)
  have r: "round64 x = of_int (round_half_even (x / ulp)) * ulp"
    using False by (simp add: round64_def Let_def e_def ulp_def)
  have "round64 x - x = (of_int (round_half_even (x / ulp)) - x / ulp) * ulp"
    using ulp_pos by (simp add: r field_simps)
  then have "\<bar>round64 x - x\<bar> = \<bar>of_int (round_half_even (x / ulp)) - x / ulp\<bar> * ulp"
    using ulp_pos by (simp add: abs_mult)
  also have "\<dots> \<le> 1 / 2 * ulp"
    using ulp_pos round_half_even_error [of "x / ulp"] by (intro mult_right_mono) simp_all
  also have "\<dots> = 2 powr of_int (e - 53)"
    by (simp add: ulp_def powr_diff)
  finally have bound: "\<bar>round64 x - x\<bar> \<le> 2 powr of_int (e - 53)" .
  show ?thesis
  proof (cases "- 1022 \<le> \<lfloor>log 2 \<bar>x\<bar>\<rfloor>")
    case True
    then have e: "e = \<lfloor>log 2 \<bar>x\<bar>\<rfloor>" by (simp add: e_def)
    have "of_int e \<le> log 2 \<bar>x\<bar>" by (simp add: e)
    then have "2 powr of_int e \<le> \<bar>x\<bar>"
      using False by (simp add: le_log_iff)
    moreover have "2 powr of_int (e - 53) = u64 * 2 powr of_int e"
      by (simp add: u64_def powr_add [symmetric])
    moreover have "0 \<le> u64" "0 \<le> eta64"
      by (simp_all add: u64_def eta64_def)
    ultimately have "2 powr of_int (e - 53) \<le> u64 * \<bar>x\<bar> + eta64"
      by (smt (verit) mult_left_mono)
    with bound show ?thesis by linarith
  next
    case False
    then have "e = - 1022" by (simp add: e_def)
    then have "2 powr of_int (e - 53) = eta64"
      by (simp add: eta64_def)
    moreover have "0 \<le> u64 * \<bar>x\<bar>"
      by (simp add: u64_def)
    ultimately show ?thesis using bound by linarith
  qed
qed

lemma round64_dyadic:
  assumes "2 ^ 52 \<le> \<bar>x\<bar> * 2 ^ k" and "\<bar>x\<bar> * 2 ^ k < 2 ^ 53" and "k \<le> 1074"
  shows "round64 x = of_int (round_half_even (x * 2 ^ k)) / 2 ^ k"
proof -
  have nz: "x \<noteq> 0" using assms(1) by auto
  have p: "2 powr (52 - real k) = 2 ^ 52 / 2 ^ k" "2 powr (53 - real k) = 2 ^ 53 / 2 ^ k"
    by (simp_all add: powr_diff powr_realpow)
  have "2 powr (52 - real k) \<le> \<bar>x\<bar>" "\<bar>x\<bar> < 2 powr (53 - real k)"
    using assms(1,2) unfolding p by (simp_all add: field_simps)
  then have "of_int (52 - int k) \<le> log 2 \<bar>x\<bar>" "log 2 \<bar>x\<bar> < of_int (52 - int k) + 1"
    using nz by (simp_all add: le_log_iff log_less_iff)
  then have "\<lfloor>log 2 \<bar>x\<bar>\<rfloor> = 52 - int k"
    by (simp add: floor_eq_iff)
  moreover have "- 1022 \<le> 52 - int k"
    using assms(3) by simp
  ultimately have e: "max \<lfloor>log 2 \<bar>x\<bar>\<rfloor> (- 1022) = 52 - int k"
    by simp
  have ulp: "(2::real) powr (- real k) = 1 / 2 ^ k"
    by (simp add: powr_minus powr_realpow divide_inverse)
  show ?thesis
    using nz by (simp add: round64_def Let_def e ulp)
qed

lemma fl64_dyadic:
  assumes "2 ^ 52 \<le> \<bar>x\<bar> * 2 ^ k" and "\<bar>x\<bar> * 2 ^ k < 2 ^ 53" and "k \<le> 1074"
  shows "fl64 x = Fin (of_int (round_half_even (x * 2 ^ k)) / 2 ^ k)"
proof -
  let ?m = "round_half_even (x * 2 ^ k)"
  have r: "round64 x = of_int ?m / 2 ^ k"
    using assms by (rule round64_dyadic)
  have "\<bar>of_int ?m - x * 2 ^ k\<bar> \<le> 1 / 2"
    by (rule round_half_even_error)
  moreover have "\<bar>x * 2 ^ k\<bar> = \<bar>x\<bar> * 2 ^ k"
    by (simp add: abs_mult)
  ultimately have "\<bar>of_int ?m :: real\<bar> \<le> \<bar>x\<bar> * 2 ^ k + 1 / 2"
    by linarith
  then have m: "\<bar>of_int ?m :: real\<bar> < 2 ^ 54"
    using assms(2) by simp
  have "\<bar>of_int ?m / 2 ^ k :: real\<bar> = \<bar>of_int ?m\<bar> / 2 ^ k"
    by simp
  also have "\<dots> \<le> \<bar>of_int ?m\<bar> / 1"
    by (intro divide_left_mono) simp_all
  also have "\<dots> < 2 ^ 54"
    using m by simp
  also have "(2::real) ^ 54 < 2 powr 1024"
    by simp
  finally show ?thesis
    by (simp add: fl64_def Let_def r)
qed

lemma fl64_zero [simp]: "fl64 0 = Fin 0"
  by (simp add: fl64_def round64_def)

lemma fl64_Fin_round64: "fl64 x = Fin v \<Longrightarrow> v = round64 x"
  by (auto simp: fl64_def Let_def inf_of_sign_def split: if_splits)

lemma add64_Fin: "add64 a b = Fin v \<Longrightarrow> \<exists>x y. a = Fin x \<and> b = Fin y \<and> v = round64 (x + y)"
  by (cases a; cases b) (auto simp: add64_def plus_npfloat_def dest: fl64_Fin_round64)

lemma sub64_Fin: "sub64 a b = Fin v \<Longrightarrow> \<exists>x y. a = Fin x \<and> b = Fin y \<and> v = round64 (x - y)"
  by (cases a; cases b) (auto simp: sub64_def minus_npfloat_def dest: fl64_Fin_round64)

lemma u64_bounds: "0 \<le> u64" "0 \<le> eta64"
  by (simp_all add: u64_def eta64_def)

lemma add_sub_round_trip:
  assumes "add64 (Fin d) (sub64 (Fin s) (Fin d)) = Fin v"
  shows "\<bar>v - s\<bar> \<le> u64 * \<bar>s\<bar> + u64 * (1 + u64) * \<bar>s - d\<bar> + (2 + u64) * eta64"
proof -
  from add64_Fin [OF assms] obtain r where r: "sub64 (Fin s) (Fin d) = Fin r"
    and v: "v = round64 (d + r)" by auto
  from sub64_Fin [OF r] have rr: "r = round64 (s - d)" by auto
  define e1 where "e1 = r - (s - d)"
  define e2 where "e2 = v - (d + r)"
  have b1: "\<bar>e1\<bar> \<le> u64 * \<bar>s - d\<bar> + eta64"
    unfolding e1_def rr by (rule round64_error)
  have b2: "\<bar>e2\<bar> \<le> u64 * \<bar>d + r\<bar> + eta64"
    unfolding e2_def v by (rule round64_error)
  have dr: "d + r = s + e1"
    by (simp add: e1_def)
  have "\<bar>d + r\<bar> \<le> \<bar>s\<bar> + \<bar>e1\<bar>"
    unfolding dr by (rule abs_triangle_ineq)
  then have "u64 * \<bar>d + r\<bar> \<le> u64 * (\<bar>s\<bar> + \<bar>e1\<bar>)"
    using u64_bounds(1) by (rule mult_left_mono)
  also have "\<dots> \<le> u64 * (\<bar>s\<bar> + (u64 * \<bar>s - d\<bar> + eta64))"
    using b1 u64_bounds(1) by (intro mult_left_mono) simp_all
  finally have b3: "\<bar>e2\<bar> \<le> u64 * (\<bar>s\<bar> + (u64 * \<bar>s - d\<bar> + eta64)) + eta64"
    using b2 by linarith
  have "v - s = e1 + e2"
    by (simp add: e1_def e2_def)
  then have "\<bar>v - s\<bar> \<le> \<bar>e1\<bar> + \<bar>e2\<bar>"
    by (simp add: abs_triangle_ineq)
  also have "\<dots> \<le> (u64 * \<bar>s - d\<bar> + eta64) + (u64 * (\<bar>s\<bar> + (u64 * \<bar>s - d\<bar> + eta64)) + eta64)"
    using b1 b3 by linarith
  also have "\<dots> = u64 * \<bar>s\<bar> + u64 * (1 + u64) * \<bar>s - d\<bar> + (2 + u64) * eta64"
    by (simp add: algebra_simps)
  finally show ?thesis .
qed

section \<open>Fitted values from residuals\<close>

lemma finite_add_diff: "is_finite d \<Longrightarrow> d + (s - d) = s"
  by (cases d; cases s) (simp_all add: plus_npfloat_def minus_npfloat_def)

lemma map2_add_diff:
  "length a = length b \<Longrightarrow> finite_rows b \<Longrightarrow>
     map2 (\<lambda>(x1, y1) (x2, y2). (x1 + x2, y1 + y2)) b
       (map2 (\<lambda>(x1, y1) (x2, y2). (x1 - x2, y1 - y2)) a b) = a"
proof (induction a b rule: list_induct2)
  case Nil
  then show ?case by simp
next
  case (Cons x xs y ys)
  obtain x1 x2 where x: "x = (x1, x2)" by (cases x)
  obtain y1 y2 where y: "y = (y1, y2)" by (cases y)
  from Cons show ?case
    by (simp add: x y finite_add_diff finite_rows_def)
qed

lemma final64_entries:
  assumes "length a = length data"
  shows "final64 data (ravel (map2 (\<lambda>(x1, y1) (x2, y2). (sub64 x1 x2, sub64 y1 y2)) a data)) =
           Inr (map2 (\<lambda>(s1, s2) (o1, o2). (add64 o1 (sub64 s1 o1), add64 o2 (sub64 s2 o2))) a data)"
proof -
  let ?d = "map2 (\<lambda>(x1, y1) (x2, y2). (sub64 x1 x2, sub64 y1 y2)) a data"
  have len: "length ?d = length data"
    using assms by simp
  have "final64 data (ravel ?d) = broadcast2 add64 data ?d"
    using assms by (simp add: final64_def reshape2_def length_ravel rows2_ravel)
  also have "\<dots> = Inr (map2 (\<lambda>(x1, y1) (x2, y2). (add64 x1 x2, add64 y1 y2)) data ?d)"
    using len by (simp add: broadcast2_same)
  also have "map2 (\<lambda>(x1, y1) (x2, y2). (add64 x1 x2, add64 y1 y2)) data ?d =
      map2 (\<lambda>(s1, s2) (o1, o2). (add64 o1 (sub64 s1 o1), add64 o2 (sub64 s2 o2))) a data"
    using assms by (induction a data rule: list_induct2) (simp_all add: case_prod_beta)
  finally show ?thesis .
qed

text \<open>
  A simulated value of 0.1 (as a float64) against an observed count of 1000, as the
  program computes it: the residual is the rounded 0.1 - 1000, and 1000 plus that
  residual is 0.10000000000002274, not the simulated value.
\<close>

theorem final_float64_differs:
  "error64 euler_odeint (notebook_params (Fin 0) (Fin 0) (Fin 0))
     (Fin 0, Fin (3602879701896397 / 36028797018963968), Fin 0,
      Fin (3602879701896397 / 18014398509481984))
     [Fin 0, Fin 1] [(Fin 1000, Fin 0), (Fin 1000, Fin 0)] =
     Inr [Fin (- (8795213412905779 / 8796093022208)), Fin 0,
          Fin (- (8795213412905779 / 8796093022208)), Fin 0] \<and>
   final64 [(Fin 1000, Fin 0), (Fin 1000, Fin 0)]
     [Fin (- (8795213412905779 / 8796093022208)), Fin 0,
      Fin (- (8795213412905779 / 8796093022208)), Fin 0] =
     Inr [(Fin (879609302221 / 8796093022208), Fin 0),
          (Fin (879609302221 / 8796093022208), Fin 0)] \<and>
   ode_solver euler_odeint [Fin 0, Fin 1]
     (Fin 0, Fin (3602879701896397 / 36028797018963968), Fin 0,
      Fin (3602879701896397 / 18014398509481984))
     (notebook_params (Fin 0) (Fin 0) (Fin 0)) =
     Inr [(Fin (3602879701896397 / 36028797018963968), Fin 0,
           Fin (3602879701896397 / 36028797018963968), Fin 0),
          (Fin (3602879701896397 / 36028797018963968), Fin 0,
           Fin (3602879701896397 / 36028797018963968), Fin 0)] \<and>
   Fin (879609302221 / 8796093022208) \<noteq> Fin (3602879701896397 / 36028797018963968)"
proof -
  have s: "sub64 (Fin (3602879701896397 / 36028797018963968)) (Fin 1000) =
      Fin (- (8795213412905779 / 8796093022208))"
    by (simp add: sub64_def fl64_dyadic [where k = 43] round_half_even_def Let_def)
  have a: "add64 (Fin 1000) (Fin (- (8795213412905779 / 8796093022208))) =
      Fin (879609302221 / 8796093022208)"
    by (simp add: add64_def fl64_dyadic [where k = 56] round_half_even_def Let_def)
  have z: "sub64 (Fin 0) (Fin 0) = Fin 0" "add64 (Fin 0) (Fin 0) = Fin 0"
    by (simp_all add: sub64_def add64_def)
  have sol: "ode_solver euler_odeint [Fin 0, Fin 1]
     (Fin 0, Fin (3602879701896397 / 36028797018963968), Fin 0,
      Fin (3602879701896397 / 18014398509481984))
     (notebook_params (Fin 0) (Fin 0) (Fin 0)) =
     Inr [(Fin (3602879701896397 / 36028797018963968), Fin 0,
           Fin (3602879701896397 / 36028797018963968), Fin 0),
          (Fin (3602879701896397 / 36028797018963968), Fin 0,
           Fin (3602879701896397 / 36028797018963968), Fin 0)]"
    by (simp add: ode_solver_def notebook_params_value euler_step_def ode_model_def Let_def)
  show ?thesis
    by (simp add: error64_def sol final64_def reshape2_def broadcast2_def slice_2_4_def
        ravel_def Let_def s a z)
qed

text \<open>
  C10, as the code has it. For an observed array of finite values with one row per
  grid point: in exact arithmetic, observed + reshape(residuals) is sol[:, 2:4]. As the
  program computes it in float64, the entry for day i is obs + (sim - obs) with both
  operations rounded, for the Infectious and for the Removed column; where sim, obs and
  the entry are finite, the entry differs from sim by at most
  2^-53 * |sim| + 2^-53 * (1 + 2^-53) * |sim - obs| + (2 + 2^-53) * 2^-1075.
\<close>

theorem final_restores_simulation_up_to_rounding:
  assumes "odeint_contract od"
    and "param_value params ''beta'' = Inr beta"
    and "param_value params ''sigma'' = Inr sigma"
    and "param_value params ''gamma'' = Inr gamma"
    and "length data = length tspan"
    and "finite_rows data"
  shows "\<exists>sol r r64 f64.
           ode_solver od tspan (initE, initI, initR, initN) params = Inr sol \<and>
           error od params (initE, initI, initR, initN) tspan data = Inr r \<and>
           final data r = Inr (slice_2_4 sol) \<and>
           error64 od params (initE, initI, initR, initN) tspan data = Inr r64 \<and>
           final64 data r64 = Inr f64 \<and>
           length f64 = length tspan \<and>
           (\<forall>i<length tspan.
              (case sol ! i of (S, E, I, R) \<Rightarrow>
               case data ! i of (oI, oR) \<Rightarrow>
                 f64 ! i = (add64 oI (sub64 I oI), add64 oR (sub64 R oR)) \<and>
                 (\<forall>s d v. I = Fin s \<and> oI = Fin d \<and> fst (f64 ! i) = Fin v \<longrightarrow>
                    \<bar>v - s\<bar> \<le> u64 * \<bar>s\<bar> + u64 * (1 + u64) * \<bar>s - d\<bar> + (2 + u64) * eta64) \<and>
                 (\<forall>s d v. R = Fin s \<and> oR = Fin d \<and> snd (f64 ! i) = Fin v \<longrightarrow>
                    \<bar>v - s\<bar> \<le> u64 * \<bar>s\<bar> + u64 * (1 + u64) * \<bar>s - d\<bar> + (2 + u64) * eta64)))"
proof -
  define sol where "sol = od ode_model (initN - (initE + initI + initR), initE, initI, initR) tspan (beta, sigma, gamma)"
  define d where "d = map2 (\<lambda>(x1, y1) (x2, y2). (x1 - x2, y1 - y2)) (slice_2_4 sol) data"
  define d64 where "d64 = map2 (\<lambda>(x1, y1) (x2, y2). (sub64 x1 x2, sub64 y1 y2)) (slice_2_4 sol) data"
  define f64 where "f64 = map2 (\<lambda>(s1, s2) (o1, o2). (add64 o1 (sub64 s1 o1), add64 o2 (sub64 s2 o2)))
      (slice_2_4 sol) data"
  have solver: "ode_solver od tspan (initE, initI, initR, initN) params = Inr sol"
    using assms(2-4) by (simp add: ode_solver_Inr sol_def)
  have len: "length (slice_2_4 sol) = length data"
    using assms(1,5) by (simp add: odeint_contract_def sol_def)
  have sub: "np_subtract (slice_2_4 sol) data = Inr d"
    using len by (simp add: np_subtract_def broadcast2_same d_def)
  have res: "error od params (initE, initI, initR, initN) tspan data = Inr (ravel d)"
    by (simp add: error_def solver sub)
  have lend: "length d = length data"
    using len by (simp add: d_def)
  have "final data (ravel d) = np_plus data d"
    by (simp add: final_def reshape2_def length_ravel lend rows2_ravel)
  also have "\<dots> = Inr (map2 (\<lambda>(x1, y1) (x2, y2). (x1 + x2, y1 + y2)) data d)"
    using lend by (simp add: np_plus_def broadcast2_same)
  also have "map2 (\<lambda>(x1, y1) (x2, y2). (x1 + x2, y1 + y2)) data d = slice_2_4 sol"
    unfolding d_def using len assms(6) by (rule map2_add_diff)
  finally have exact: "final data (ravel d) = Inr (slice_2_4 sol)" .
  have res64: "error64 od params (initE, initI, initR, initN) tspan data = Inr (ravel d64)"
    using len by (simp add: error64_def solver broadcast2_same d64_def)
  have fin64: "final64 data (ravel d64) = Inr f64"
    unfolding d64_def f64_def using len by (rule final64_entries)
  have lenf: "length f64 = length tspan"
    using len assms(5) by (simp add: f64_def)
  have entries: "(case sol ! i of (S, E, I, R) \<Rightarrow>
               case data ! i of (oI, oR) \<Rightarrow>
                 f64 ! i = (add64 oI (sub64 I oI), add64 oR (sub64 R oR)) \<and>
                 (\<forall>s d v. I = Fin s \<and> oI = Fin d \<and> fst (f64 ! i) = Fin v \<longrightarrow>
                    \<bar>v - s\<bar> \<le> u64 * \<bar>s\<bar> + u64 * (1 + u64) * \<bar>s - d\<bar> + (2 + u64) * eta64) \<and>
                 (\<forall>s d v. R = Fin s \<and> oR = Fin d \<and> snd (f64 ! i) = Fin v \<longrightarrow>
                    \<bar>v - s\<bar> \<le> u64 * \<bar>s\<bar> + u64 * (1 + u64) * \<bar>s - d\<bar> + (2 + u64) * eta64))"
    if "i < length tspan" for i
  proof -
    obtain S E I R where row: "sol ! i = (S, E, I, R)" by (cases "sol ! i")
    obtain oI oR where obs: "data ! i = (oI, oR)" by (cases "data ! i")
    have fi: "f64 ! i = (add64 oI (sub64 I oI), add64 oR (sub64 R oR))"
      using that len assms(5) by (simp add: f64_def slice_2_4_def row obs)
    show ?thesis
      using add_sub_round_trip by (auto simp: row obs fi)
  qed
  show ?thesis
    using solver res exact res64 fin64 lenf entries by blast
qed

theorem final_restores_simulation_up_to_rounding_witness:
  "odeint_contract euler_odeint \<and>
   length [(Fin 1000, Fin 0), (Fin 1000, Fin 0)] = length [Fin 0, Fin 1] \<and>
   finite_rows [(Fin 1000, Fin 0), (Fin 1000, Fin 0)] \<and>
   (\<exists>sol r r64 f64.
      ode_solver euler_odeint [Fin 0, Fin 1]
        (Fin 0, Fin (3602879701896397 / 36028797018963968), Fin 0,
         Fin (3602879701896397 / 18014398509481984))
        (notebook_params (Fin 0) (Fin 0) (Fin 0)) = Inr sol \<and>
      slice_2_4 sol = [(Fin (3602879701896397 / 36028797018963968), Fin 0),
                       (Fin (3602879701896397 / 36028797018963968), Fin 0)] \<and>
      error euler_odeint (notebook_params (Fin 0) (Fin 0) (Fin 0))
        (Fin 0, Fin (3602879701896397 / 36028797018963968), Fin 0,
         Fin (3602879701896397 / 18014398509481984))
        [Fin 0, Fin 1] [(Fin 1000, Fin 0), (Fin 1000, Fin 0)] = Inr r \<and>
      final [(Fin 1000, Fin 0), (Fin 1000, Fin 0)] r = Inr (slice_2_4 sol) \<and>
      error64 euler_odeint (notebook_params (Fin 0) (Fin 0) (Fin 0))
        (Fin 0, Fin (3602879701896397 / 36028797018963968), Fin 0,
         Fin (3602879701896397 / 18014398509481984))
        [Fin 0, Fin 1] [(Fin 1000, Fin 0), (Fin 1000, Fin 0)] = Inr r64 \<and>
      final64 [(Fin 1000, Fin 0), (Fin 1000, Fin 0)] r64 = Inr f64 \<and>
      f64 = [(Fin (879609302221 / 8796093022208), Fin 0),
             (Fin (879609302221 / 8796093022208), Fin 0)] \<and>
      \<bar>879609302221 / 8796093022208 - 3602879701896397 / 36028797018963968\<bar> \<le>
         u64 * \<bar>3602879701896397 / 36028797018963968\<bar> +
         u64 * (1 + u64) * \<bar>3602879701896397 / 36028797018963968 - 1000\<bar> +
         (2 + u64) * eta64)"
proof -
  let ?ic = "(Fin 0, Fin (3602879701896397 / 36028797018963968), Fin 0,
         Fin (3602879701896397 / 18014398509481984))"
  let ?data = "[(Fin 1000, Fin 0), (Fin 1000, Fin 0)]"
  have len: "length ?data = length [Fin 0, Fin 1]" by simp
  have fin: "finite_rows ?data" by (simp add: finite_rows_def)
  from final_restores_simulation_up_to_rounding [OF euler_odeint_contract
      notebook_params_value [of "Fin 0" "Fin 0" "Fin 0"] len fin,
      where initE = "Fin 0" and initI = "Fin (3602879701896397 / 36028797018963968)"
        and initR = "Fin 0" and initN = "Fin (3602879701896397 / 18014398509481984)"]
  obtain sol r r64 f64 where
    s: "ode_solver euler_odeint [Fin 0, Fin 1] ?ic (notebook_params (Fin 0) (Fin 0) (Fin 0)) = Inr sol"
    and r: "error euler_odeint (notebook_params (Fin 0) (Fin 0) (Fin 0)) ?ic [Fin 0, Fin 1] ?data = Inr r"
    and f: "final ?data r = Inr (slice_2_4 sol)"
    and r64: "error64 euler_odeint (notebook_params (Fin 0) (Fin 0) (Fin 0)) ?ic [Fin 0, Fin 1] ?data = Inr r64"
    and f64: "final64 ?data r64 = Inr f64"
    by blast
  have sub: "sub64 (Fin (3602879701896397 / 36028797018963968)) (Fin 1000) =
      Fin (- (8795213412905779 / 8796093022208))"
    by (simp add: sub64_def fl64_dyadic [where k = 43] round_half_even_def Let_def)
  have add: "add64 (Fin 1000) (Fin (- (8795213412905779 / 8796093022208))) =
      Fin (879609302221 / 8796093022208)"
    by (simp add: add64_def fl64_dyadic [where k = 56] round_half_even_def Let_def)
  have z: "sub64 (Fin 0) (Fin 0) = Fin 0" "add64 (Fin 0) (Fin 0) = Fin 0"
    by (simp_all add: sub64_def add64_def)
  have sol: "sol = [(Fin (3602879701896397 / 36028797018963968), Fin 0,
           Fin (3602879701896397 / 36028797018963968), Fin 0),
          (Fin (3602879701896397 / 36028797018963968), Fin 0,
           Fin (3602879701896397 / 36028797018963968), Fin 0)]"
    using s by (simp add: ode_solver_def notebook_params_value euler_step_def ode_model_def Let_def)
  have sl: "slice_2_4 sol = [(Fin (3602879701896397 / 36028797018963968), Fin 0),
                       (Fin (3602879701896397 / 36028797018963968), Fin 0)]"
    by (simp add: sol slice_2_4_def)
  have "r64 = [Fin (- (8795213412905779 / 8796093022208)), Fin 0,
      Fin (- (8795213412905779 / 8796093022208)), Fin 0]"
    using r64 by (simp add: error64_def s sol broadcast2_def slice_2_4_def ravel_def Let_def sub z)
  then have fv: "f64 = [(Fin (879609302221 / 8796093022208), Fin 0),
             (Fin (879609302221 / 8796093022208), Fin 0)]"
    using f64 by (simp add: final64_def reshape2_def broadcast2_def Let_def add z)
  have "add64 (Fin 1000) (sub64 (Fin (3602879701896397 / 36028797018963968)) (Fin 1000)) =
      Fin (879609302221 / 8796093022208)"
    by (simp only: sub add)
  then have bound: "\<bar>879609302221 / 8796093022208 - 3602879701896397 / 36028797018963968\<bar> \<le>
         u64 * \<bar>3602879701896397 / 36028797018963968\<bar> +
         u64 * (1 + u64) * \<bar>3602879701896397 / 36028797018963968 - 1000\<bar> +
         (2 + u64) * eta64"
    by (rule add_sub_round_trip)
  show ?thesis
    using euler_odeint_contract len fin s sl r f r64 f64 fv bound by blast
qed

section \<open>Conservation\<close>

lemma inf_of_sign_minus: "inf_of_sign (- s) = - inf_of_sign s"
  by (simp add: inf_of_sign_def uminus_npfloat_def)

lemma sign_of_minus: "sign_of (- a) = - sign_of a"
  by (cases a) (simp_all add: uminus_npfloat_def sgn_minus)







lemma neg_Fin: "- a = Fin v \<Longrightarrow> a = Fin (- v)" for a :: npfloat
  by (cases a) (simp_all add: uminus_npfloat_def)





section \<open>Zero total population\<close>










section \<open>MAE and RMSE over the fit and prediction windows\<close>

lemma foldl_add_Fin: "foldl (+) (Fin a) (map Fin xs) = Fin (a + sum_list xs)"
  by (induction xs arbitrary: a) (simp_all add: add.assoc)

lemma np_mean_Fin: "xs \<noteq> [] \<Longrightarrow> np_mean (map Fin xs) = Fin (sum_list xs / real (length xs))"
  by (simp add: np_mean_def np_sum_def foldl_add_Fin)

lemma MAE_Fin:
  assumes "length xs = length ys" and "xs \<noteq> []"
  shows "MAE (map Fin xs) (map Fin ys) =
           Inr (Fin ((\<Sum>i<length xs. \<bar>xs ! i - ys ! i\<bar>) / real (length xs)))"
proof -
  define ds where "ds = map2 (\<lambda>x y. \<bar>x - y\<bar>) xs ys"
  have sub: "np_subtract1 (map Fin xs) (map Fin ys) = Inr (map2 (\<lambda>x y. x - y) (map Fin xs) (map Fin ys))"
    using assms(1) by (simp add: np_subtract1_def)
  have "map abs (map2 (\<lambda>x y. x - y) (map Fin xs) (map Fin ys)) = map Fin ds"
    using assms(1) unfolding ds_def by (induction xs ys rule: list_induct2) simp_all
  moreover have "ds \<noteq> []" "length ds = length xs"
    using assms by (auto simp: ds_def)
  moreover have "sum_list ds = (\<Sum>i<length xs. \<bar>xs ! i - ys ! i\<bar>)"
    using assms(1) by (simp add: ds_def sum_list_sum_nth atLeast0LessThan)
  ultimately show ?thesis
    by (simp add: MAE_def sub np_mean_Fin)
qed

lemma RMSE_Fin:
  assumes "length xs = length ys" and "xs \<noteq> []"
  shows "RMSE (map Fin xs) (map Fin ys) =
           Inr (Fin (sqrt ((\<Sum>i<length xs. (xs ! i - ys ! i)\<^sup>2) / real (length xs))))"
proof -
  define ds where "ds = map2 (\<lambda>x y. (x - y)\<^sup>2) xs ys"
  have sub: "np_subtract1 (map Fin xs) (map Fin ys) = Inr (map2 (\<lambda>x y. x - y) (map Fin xs) (map Fin ys))"
    using assms(1) by (simp add: np_subtract1_def)
  have "map (\<lambda>x. x * x) (map2 (\<lambda>x y. x - y) (map Fin xs) (map Fin ys)) = map Fin ds"
    using assms(1) unfolding ds_def by (induction xs ys rule: list_induct2) (simp_all add: power2_eq_square)
  moreover have "ds \<noteq> []" "length ds = length xs"
    using assms by (auto simp: ds_def)
  moreover have s: "sum_list ds = (\<Sum>i<length xs. (xs ! i - ys ! i)\<^sup>2)"
    using assms(1) by (simp add: ds_def sum_list_sum_nth atLeast0LessThan)
  moreover have "0 \<le> sum_list ds / real (length ds)"
    unfolding s by (simp add: sum_nonneg)
  ultimately show ?thesis
    by (simp add: RMSE_def sub np_mean_Fin)
qed

lemma float_rows_cols:
  "map fst (float_rows a) = map Fin (map fst a)"
  "map snd (float_rows a) = map Fin (map snd a)"
  by (simp_all add: float_rows_def case_prod_beta comp_def)

lemma float_rows_take: "take n (float_rows a) = float_rows (take n a)"
  by (simp add: float_rows_def take_map)

lemma float_rows_drop: "drop n (float_rows a) = float_rows (drop n a)"
  by (simp add: float_rows_def drop_map)

lemma length_float_rows [simp]: "length (float_rows a) = length a"
  by (simp add: float_rows_def)

lemma fit_window_sum:
  assumes "days \<le> length sim" and "days \<le> length obs"
  shows "(\<Sum>i<length (map c (take days sim)).
            g (map c (take days sim) ! i) (map c (take days obs) ! i)) =
         (\<Sum>i<days. g (c (sim ! i)) (c (obs ! i)))"
  using assms by (intro sum.cong) (simp_all add: min_absorb2)

lemma prediction_window_sum:
  assumes "length sim = length obs" and "days \<le> length obs"
  shows "(\<Sum>i<length (map c (drop days sim)).
            g (map c (drop days sim) ! i) (map c (drop days obs) ! i)) =
         (\<Sum>i=days..<length obs. g (c (sim ! i)) (c (obs ! i)))"
proof -
  have "(\<Sum>i<length (map c (drop days sim)).
            g (map c (drop days sim) ! i) (map c (drop days obs) ! i)) =
        (\<Sum>i=0..<length obs - days. g (c (sim ! (i + days))) (c (obs ! (i + days))))"
    using assms by (intro sum.cong) (auto simp: add.commute)
  also have "\<dots> = (\<Sum>i=0 + days..<(length obs - days) + days. g (c (sim ! i)) (c (obs ! i)))"
    by (simp only: sum.shift_bounds_nat_ivl)
  finally show ?thesis
    using assms(2) by simp
qed

lemma fitted_MAE_col:
  assumes cols: "\<And>a. map cn (float_rows a) = map Fin (map c a)"
    and "0 < days" and "days \<le> length sim" and "days \<le> length obs"
  shows "fitted_MAE cn (float_rows sim) (float_rows obs) days =
           Inr (Fin ((\<Sum>i<days. \<bar>c (sim ! i) - c (obs ! i)\<bar>) / real days))"
proof -
  let ?xs = "map c (take days sim)" and ?ys = "map c (take days obs)"
  have len: "length ?xs = length ?ys" "?xs \<noteq> []" "length ?xs = days"
    using assms(2-4) by auto
  have "fitted_MAE cn (float_rows sim) (float_rows obs) days = MAE (map Fin ?xs) (map Fin ?ys)"
    by (simp add: fitted_MAE_def float_rows_take cols)
  also have "\<dots> = Inr (Fin ((\<Sum>i<length ?xs. \<bar>?xs ! i - ?ys ! i\<bar>) / real (length ?xs)))"
    using len(1,2) by (rule MAE_Fin)
  also have "(\<Sum>i<length ?xs. \<bar>?xs ! i - ?ys ! i\<bar>) = (\<Sum>i<days. \<bar>c (sim ! i) - c (obs ! i)\<bar>)"
    using assms(3,4) by (rule fit_window_sum [where g = "\<lambda>x y. \<bar>x - y\<bar>"])
  finally show ?thesis
    by (simp only: len(3))
qed

lemma fitted_RMSE_col:
  assumes cols: "\<And>a. map cn (float_rows a) = map Fin (map c a)"
    and "0 < days" and "days \<le> length sim" and "days \<le> length obs"
  shows "fitted_RMSE cn (float_rows sim) (float_rows obs) days =
           Inr (Fin (sqrt ((\<Sum>i<days. (c (sim ! i) - c (obs ! i))\<^sup>2) / real days)))"
proof -
  let ?xs = "map c (take days sim)" and ?ys = "map c (take days obs)"
  have len: "length ?xs = length ?ys" "?xs \<noteq> []" "length ?xs = days"
    using assms(2-4) by auto
  have "fitted_RMSE cn (float_rows sim) (float_rows obs) days = RMSE (map Fin ?xs) (map Fin ?ys)"
    by (simp add: fitted_RMSE_def float_rows_take cols)
  also have "\<dots> = Inr (Fin (sqrt ((\<Sum>i<length ?xs. (?xs ! i - ?ys ! i)\<^sup>2) / real (length ?xs))))"
    using len(1,2) by (rule RMSE_Fin)
  also have "(\<Sum>i<length ?xs. (?xs ! i - ?ys ! i)\<^sup>2) = (\<Sum>i<days. (c (sim ! i) - c (obs ! i))\<^sup>2)"
    using assms(3,4) by (rule fit_window_sum [where g = "\<lambda>x y. (x - y)\<^sup>2"])
  finally show ?thesis
    by (simp only: len(3))
qed

lemma predicted_MAE_col:
  assumes cols: "\<And>a. map cn (float_rows a) = map Fin (map c a)"
    and "length sim = length obs" and "days < length obs"
  shows "predicted_MAE cn (float_rows sim) (float_rows obs) days =
           Inr (Fin ((\<Sum>i=days..<length obs. \<bar>c (sim ! i) - c (obs ! i)\<bar>) / real (length obs - days)))"
proof -
  let ?xs = "map c (drop days sim)" and ?ys = "map c (drop days obs)"
  have len: "length ?xs = length ?ys" "?xs \<noteq> []" "length ?xs = length obs - days"
    using assms(2,3) by auto
  have le: "days \<le> length obs"
    using assms(3) by simp
  have "predicted_MAE cn (float_rows sim) (float_rows obs) days = MAE (map Fin ?xs) (map Fin ?ys)"
    using assms(2) by (simp add: predicted_MAE_def float_rows_take float_rows_drop cols)
  also have "\<dots> = Inr (Fin ((\<Sum>i<length ?xs. \<bar>?xs ! i - ?ys ! i\<bar>) / real (length ?xs)))"
    using len(1,2) by (rule MAE_Fin)
  also have "(\<Sum>i<length ?xs. \<bar>?xs ! i - ?ys ! i\<bar>) =
      (\<Sum>i=days..<length obs. \<bar>c (sim ! i) - c (obs ! i)\<bar>)"
    using assms(2) le by (rule prediction_window_sum [where g = "\<lambda>x y. \<bar>x - y\<bar>"])
  finally show ?thesis
    by (simp only: len(3))
qed

lemma predicted_RMSE_col:
  assumes cols: "\<And>a. map cn (float_rows a) = map Fin (map c a)"
    and "length sim = length obs" and "days < length obs"
  shows "predicted_RMSE cn (float_rows sim) (float_rows obs) days =
           Inr (Fin (sqrt ((\<Sum>i=days..<length obs. (c (sim ! i) - c (obs ! i))\<^sup>2) / real (length obs - days))))"
proof -
  let ?xs = "map c (drop days sim)" and ?ys = "map c (drop days obs)"
  have len: "length ?xs = length ?ys" "?xs \<noteq> []" "length ?xs = length obs - days"
    using assms(2,3) by auto
  have le: "days \<le> length obs"
    using assms(3) by simp
  have "predicted_RMSE cn (float_rows sim) (float_rows obs) days = RMSE (map Fin ?xs) (map Fin ?ys)"
    using assms(2) by (simp add: predicted_RMSE_def float_rows_take float_rows_drop cols)
  also have "\<dots> = Inr (Fin (sqrt ((\<Sum>i<length ?xs. (?xs ! i - ?ys ! i)\<^sup>2) / real (length ?xs))))"
    using len(1,2) by (rule RMSE_Fin)
  also have "(\<Sum>i<length ?xs. (?xs ! i - ?ys ! i)\<^sup>2) =
      (\<Sum>i=days..<length obs. (c (sim ! i) - c (obs ! i))\<^sup>2)"
    using assms(2) le by (rule prediction_window_sum [where g = "\<lambda>x y. (x - y)\<^sup>2"])
  finally show ?thesis
    by (simp only: len(3))
qed

text \<open>
  C9. For each column separately (Infected, \<open>fst\<close>; Removed, \<open>snd\<close>), on finite
  simulated and observed arrays of the same length and a fit window 0 < days < length:
  MAE is the mean of the absolute differences and RMSE the square root of the mean of
  the squared differences, over the indices 0..days-1 for the fitted metrics and over
  the indices days..length-1 for the predicted ones.
\<close>

theorem error_metrics_windows:
  fixes sim obs :: "(real \<times> real) list"
  assumes "length sim = length obs" and "0 < days" and "days < length obs"
  shows
    "fitted_MAE fst (float_rows sim) (float_rows obs) days =
       Inr (Fin ((\<Sum>i<days. \<bar>fst (sim ! i) - fst (obs ! i)\<bar>) / real days)) \<and>
     fitted_MAE snd (float_rows sim) (float_rows obs) days =
       Inr (Fin ((\<Sum>i<days. \<bar>snd (sim ! i) - snd (obs ! i)\<bar>) / real days)) \<and>
     fitted_RMSE fst (float_rows sim) (float_rows obs) days =
       Inr (Fin (sqrt ((\<Sum>i<days. (fst (sim ! i) - fst (obs ! i))\<^sup>2) / real days))) \<and>
     fitted_RMSE snd (float_rows sim) (float_rows obs) days =
       Inr (Fin (sqrt ((\<Sum>i<days. (snd (sim ! i) - snd (obs ! i))\<^sup>2) / real days))) \<and>
     predicted_MAE fst (float_rows sim) (float_rows obs) days =
       Inr (Fin ((\<Sum>i=days..<length obs. \<bar>fst (sim ! i) - fst (obs ! i)\<bar>) /
                 real (length obs - days))) \<and>
     predicted_MAE snd (float_rows sim) (float_rows obs) days =
       Inr (Fin ((\<Sum>i=days..<length obs. \<bar>snd (sim ! i) - snd (obs ! i)\<bar>) /
                 real (length obs - days))) \<and>
     predicted_RMSE fst (float_rows sim) (float_rows obs) days =
       Inr (Fin (sqrt ((\<Sum>i=days..<length obs. (fst (sim ! i) - fst (obs ! i))\<^sup>2) /
                       real (length obs - days)))) \<and>
     predicted_RMSE snd (float_rows sim) (float_rows obs) days =
       Inr (Fin (sqrt ((\<Sum>i=days..<length obs. (snd (sim ! i) - snd (obs ! i))\<^sup>2) /
                       real (length obs - days))))"
proof -
  have le: "days \<le> length sim" "days \<le> length obs"
    using assms(1,3) by simp_all
  note f = float_rows_cols(1) and s = float_rows_cols(2)
  show ?thesis
    using fitted_MAE_col [of fst fst, OF f assms(2) le]
      fitted_MAE_col [of snd snd, OF s assms(2) le]
      fitted_RMSE_col [of fst fst, OF f assms(2) le]
      fitted_RMSE_col [of snd snd, OF s assms(2) le]
      predicted_MAE_col [of fst fst, OF f assms(1,3)]
      predicted_MAE_col [of snd snd, OF s assms(1,3)]
      predicted_RMSE_col [of fst fst, OF f assms(1,3)]
      predicted_RMSE_col [of snd snd, OF s assms(1,3)]
    by blast
qed

lemma sum_below_2: "(\<Sum>i<2. f i) = f 0 + f (1::nat)"
  by (simp add: numeral_2_eq_2)

lemma sum_from_2_below_3: "(\<Sum>i=2..<3. f i) = f (2::nat)"
proof -
  have "{2..<3} = {2::nat}" by auto
  then show ?thesis by simp
qed

theorem error_metrics_windows_witness:
  "length [(3, 0), (9, 1), (9, 6 :: real)] = length [(2, 1), (2, 8), (4, 4 :: real)] \<and>
   (0::nat) < 2 \<and> 2 < length [(2, 1), (2, 8), (4, 4 :: real)] \<and>
   fitted_MAE fst (float_rows [(3, 0), (9, 1), (9, 6)]) (float_rows [(2, 1), (2, 8), (4, 4)]) 2 = Inr (Fin 4) \<and>
   fitted_MAE snd (float_rows [(3, 0), (9, 1), (9, 6)]) (float_rows [(2, 1), (2, 8), (4, 4)]) 2 = Inr (Fin 4) \<and>
   fitted_RMSE fst (float_rows [(3, 0), (9, 1), (9, 6)]) (float_rows [(2, 1), (2, 8), (4, 4)]) 2 = Inr (Fin 5) \<and>
   fitted_RMSE snd (float_rows [(3, 0), (9, 1), (9, 6)]) (float_rows [(2, 1), (2, 8), (4, 4)]) 2 = Inr (Fin 5) \<and>
   predicted_MAE fst (float_rows [(3, 0), (9, 1), (9, 6)]) (float_rows [(2, 1), (2, 8), (4, 4)]) 2 = Inr (Fin 5) \<and>
   predicted_MAE snd (float_rows [(3, 0), (9, 1), (9, 6)]) (float_rows [(2, 1), (2, 8), (4, 4)]) 2 = Inr (Fin 2) \<and>
   predicted_RMSE fst (float_rows [(3, 0), (9, 1), (9, 6)]) (float_rows [(2, 1), (2, 8), (4, 4)]) 2 = Inr (Fin 5) \<and>
   predicted_RMSE snd (float_rows [(3, 0), (9, 1), (9, 6)]) (float_rows [(2, 1), (2, 8), (4, 4)]) 2 = Inr (Fin 2)"
proof -
  have len: "length [(3, 0), (9, 1), (9, 6 :: real)] = length [(2, 1), (2, 8), (4, 4 :: real)]"
    by simp
  have pos: "(0::nat) < 2" by simp
  have lt: "2 < length [(2, 1), (2, 8), (4, 4 :: real)]" by simp
  have r25: "sqrt 25 = 5"
    by (rule real_sqrt_unique) simp_all
  have r4: "sqrt 4 = 2"
    by (rule real_sqrt_unique) simp_all
  show ?thesis
    using error_metrics_windows [OF len pos lt] len pos lt
    by (simp add: sum_below_2 sum_from_2_below_3 r25 r4)
qed

section \<open>Information criteria of the recorded fit\<close>














end
